theory Spec2Isabelle
  imports Complex_Main
begin

section \<open>Tensor entries\<close>

text \<open>
  The entries of every tensor of \<^verbatim>\<open>variational.py\<close> are floating-point numbers.
  They are modelled as exact reals extended by the three special values that the code
  really produces: pruning stores \<^verbatim>\<open>softplus_inverse(0) = -inf\<close> in the raw scale, and a
  second pruning then divides \<^verbatim>\<open>0 / 0\<close>. Rounding, overflow and the sign of zero are
  not modelled.
\<close>

datatype fval = Fin real | PInf | NInf | NaN

fun fneg :: "fval \<Rightarrow> fval" where
  "fneg (Fin x) = Fin (- x)"
| "fneg PInf = NInf"
| "fneg NInf = PInf"
| "fneg NaN = NaN"

fun fabs :: "fval \<Rightarrow> fval" where
  "fabs (Fin x) = Fin \<bar>x\<bar>"
| "fabs PInf = PInf"
| "fabs NInf = PInf"
| "fabs NaN = NaN"

fun fadd :: "fval \<Rightarrow> fval \<Rightarrow> fval" where
  "fadd NaN _ = NaN"
| "fadd _ NaN = NaN"
| "fadd (Fin x) (Fin y) = Fin (x + y)"
| "fadd PInf NInf = NaN"
| "fadd NInf PInf = NaN"
| "fadd PInf _ = PInf"
| "fadd _ PInf = PInf"
| "fadd NInf _ = NInf"
| "fadd _ NInf = NInf"

definition fsub :: "fval \<Rightarrow> fval \<Rightarrow> fval" where
  "fsub a b = fadd a (fneg b)"

text \<open>The sign of a value that is not NaN, as \<open>-1\<close>, \<open>0\<close> or \<open>1\<close>.\<close>

fun fsgn :: "fval \<Rightarrow> real" where
  "fsgn (Fin x) = sgn x"
| "fsgn PInf = 1"
| "fsgn NInf = - 1"
| "fsgn NaN = 0"

definition inf_of_sign :: "real \<Rightarrow> fval" where
  "inf_of_sign s = (if s = 0 then NaN else if 0 < s then PInf else NInf)"

fun fmul :: "fval \<Rightarrow> fval \<Rightarrow> fval" where
  "fmul NaN _ = NaN"
| "fmul _ NaN = NaN"
| "fmul (Fin x) (Fin y) = Fin (x * y)"
| "fmul a b = inf_of_sign (fsgn a * fsgn b)"

text \<open>
  Division by a finite zero gives an infinity of the sign of the numerator (the zero is
  taken as \<open>+0\<close>, which is what \<open>softplus\<close> and a \<open>0/1\<close> mask produce) and \<open>0 / 0\<close>
  is NaN.
\<close>

fun fdiv :: "fval \<Rightarrow> fval \<Rightarrow> fval" where
  "fdiv NaN _ = NaN"
| "fdiv _ NaN = NaN"
| "fdiv (Fin x) (Fin y) = (if y = 0 then inf_of_sign (sgn x) else Fin (x / y))"
| "fdiv (Fin x) _ = Fin 0"
| "fdiv a (Fin y) = inf_of_sign (fsgn a * (if y < 0 then - 1 else 1))"
| "fdiv _ _ = NaN"

fun flog :: "fval \<Rightarrow> fval" where
  "flog (Fin x) = (if 0 < x then Fin (ln x) else if x = 0 then NInf else NaN)"
| "flog PInf = PInf"
| "flog NInf = NaN"
| "flog NaN = NaN"

fun fexp :: "fval \<Rightarrow> fval" where
  "fexp (Fin x) = Fin (exp x)"
| "fexp PInf = PInf"
| "fexp NInf = Fin 0"
| "fexp NaN = NaN"

text \<open>\<^verbatim>\<open>tf.math.greater\<close>: false as soon as one side is NaN.\<close>

fun fgreater :: "fval \<Rightarrow> fval \<Rightarrow> bool" where
  "fgreater NaN _ = False"
| "fgreater _ NaN = False"
| "fgreater (Fin x) (Fin y) = (y < x)"
| "fgreater PInf PInf = False"
| "fgreater PInf _ = True"
| "fgreater _ PInf = False"
| "fgreater NInf _ = False"
| "fgreater _ NInf = True"

text \<open>\<^verbatim>\<open>tf.cast(b, dtype=tf.float32)\<close> of a boolean.\<close>

definition cast_bool :: "bool \<Rightarrow> fval" where
  "cast_bool b = (if b then Fin 1 else Fin 0)"

text \<open>\<^verbatim>\<open>tf.nn.softplus\<close>: \<open>log (exp x + 1)\<close>.\<close>

definition softplus :: "fval \<Rightarrow> fval" where
  "softplus x = flog (fadd (fexp x) (Fin 1))"

text \<open>\<^verbatim>\<open>tf.contrib.distributions.softplus_inverse\<close>: \<open>log (exp x - 1)\<close>.\<close>

definition softplus_inverse :: "fval \<Rightarrow> fval" where
  "softplus_inverse x = flog (fsub (fexp x) (Fin 1))"

text \<open>\<^verbatim>\<open>tf.reduce_sum\<close> over a flat list of entries, and Python's \<^verbatim>\<open>sum\<close>, which
  starts from \<open>0\<close> and adds from the left.\<close>

definition reduce_sum :: "fval list \<Rightarrow> fval" where
  "reduce_sum xs = foldl fadd (Fin 0) xs"

type_synonym vec = "fval list"
type_synonym mat = "fval list list"

definition matmul :: "mat \<Rightarrow> mat \<Rightarrow> nat \<Rightarrow> mat" where
  \<comment> \<open>\<^verbatim>\<open>tf.matmul(x, w)\<close> for \<open>x\<close> of shape \<open>[batch, in]\<close> and \<open>w\<close> of shape \<open>[in, ncols]\<close>\<close>
  "matmul x w ncols =
     map (\<lambda>row. map (\<lambda>j. reduce_sum (map2 fmul row (map (\<lambda>wr. wr ! j) w))) [0..<ncols]) x"

fun relu :: "fval \<Rightarrow> fval" where
  "relu (Fin x) = Fin (max x 0)"
| "relu PInf = PInf"
| "relu NInf = Fin 0"
| "relu NaN = NaN"

section \<open>Distributions\<close>

text \<open>
  The distributions of \<^verbatim>\<open>tensorflow_probability\<close> that the code builds: a normal
  distribution with a location and a scale, and a mixture of normal components under a
  categorical distribution given by its probabilities.
\<close>

datatype distribution =
    Normal fval fval
  | Mixture "fval list" "(fval \<times> fval) list"

definition normal_log_prob :: "fval \<Rightarrow> fval \<Rightarrow> fval \<Rightarrow> fval" where
  \<comment> \<open>\<^verbatim>\<open>-0.5 * square((x - loc) / scale) - (0.5 * log(2 * pi) + log(scale))\<close>\<close>
  "normal_log_prob loc scale x =
     fsub (fmul (Fin (- (1 / 2))) (let z = fdiv (fsub x loc) scale in fmul z z))
          (fadd (Fin (ln (2 * pi) / 2)) (flog scale))"

definition logsumexp :: "fval list \<Rightarrow> fval" where
  "logsumexp xs = flog (reduce_sum (map fexp xs))"

fun log_prob :: "distribution \<Rightarrow> fval \<Rightarrow> fval" where
  "log_prob (Normal loc scale) x = normal_log_prob loc scale x"
| "log_prob (Mixture probs comps) x =
     logsumexp (map2 (\<lambda>p (loc, scale).
                        fadd (fsub (flog p) (logsumexp (map flog probs)))
                             (normal_log_prob loc scale x))
                     probs comps)"

text \<open>
  Randomness. Every call of \<^verbatim>\<open>sample()\<close> on a distribution takes the next tensor of
  standard-normal noise from the generator and counts one draw; entry \<open>k\<close> of the noise
  of draw \<open>d\<close> is \<open>noise g d k\<close>.
\<close>

record rng =
  noise :: "nat \<Rightarrow> nat \<Rightarrow> real"
  draws :: nat

definition sample_entries :: "(nat \<Rightarrow> real) \<Rightarrow> nat \<Rightarrow> vec \<Rightarrow> vec \<Rightarrow> vec" where
  \<comment> \<open>\<^verbatim>\<open>loc + scale * eps\<close>, the noise read from index \<open>off\<close> on\<close>
  "sample_entries e off loc scale =
     map (\<lambda>(k, m, s). fadd m (fmul s (Fin (e k)))) (zip [off..<off + length loc] (zip loc scale))"

definition sample_rows :: "(nat \<Rightarrow> real) \<Rightarrow> nat \<Rightarrow> mat \<Rightarrow> mat \<Rightarrow> mat" where
  "sample_rows e ncols loc scale =
     map (\<lambda>(i, mr, sr). sample_entries e (i * ncols) mr sr) (zip [0..<length loc] (zip loc scale))"

definition sample_vec :: "vec \<Rightarrow> vec \<Rightarrow> rng \<Rightarrow> vec \<times> rng" where
  "sample_vec loc scale g =
     (sample_entries (noise g (draws g)) 0 loc scale, g\<lparr>draws := Suc (draws g)\<rparr>)"

definition sample_mat :: "nat \<Rightarrow> mat \<Rightarrow> mat \<Rightarrow> rng \<Rightarrow> mat \<times> rng" where
  "sample_mat ncols loc scale g =
     (sample_rows (noise g (draws g)) ncols loc scale, g\<lparr>draws := Suc (draws g)\<rparr>)"

definition kl_terms :: "distribution \<Rightarrow> vec \<Rightarrow> vec \<Rightarrow> vec \<Rightarrow> vec" where
  \<comment> \<open>\<^verbatim>\<open>dist.log_prob(x) - prior.log_prob(x)\<close>, entry by entry, for \<open>dist = Normal(loc, scale)\<close>\<close>
  "kl_terms pr loc scale xs =
     map (\<lambda>(m, s, x). fsub (normal_log_prob m s x) (log_prob pr x)) (zip loc (zip scale xs))"

definition kl_sum_vec :: "distribution \<Rightarrow> vec \<Rightarrow> vec \<Rightarrow> vec \<Rightarrow> fval" where
  "kl_sum_vec pr loc scale xs = reduce_sum (kl_terms pr loc scale xs)"

definition kl_sum_mat :: "distribution \<Rightarrow> mat \<Rightarrow> mat \<Rightarrow> mat \<Rightarrow> fval" where
  "kl_sum_mat pr loc scale xs =
     reduce_sum (concat (map (\<lambda>(mr, sr, xr). kl_terms pr mr sr xr) (zip loc (zip scale xs))))"

section \<open>Errors\<close>

text \<open>
  \<open>NotConnectedError\<close> is what Sonnet's \<^verbatim>\<open>_ensure_is_connected\<close> raises on a module
  that was never called. \<^verbatim>\<open>VarLinear._build\<close> raises its shape errors through the name
  \<^verbatim>\<open>base\<close>, which \<^verbatim>\<open>variational.py\<close> never imports, so that Python raises
  \<open>NameError\<close> when it evaluates \<^verbatim>\<open>base.IncompatibleShapeError\<close>.
\<close>

datatype error =
    NotConnectedError
  | IncompatibleShapeError
  | NameError string
  | AttributeError string
  | KeyError string
  | ValueError
  | IndexError
  | EliminationError

text \<open>Sequencing: an exception raised by the first step ends the computation.\<close>

definition bind_err :: "error + 'a \<Rightarrow> ('a \<Rightarrow> error + 'b) \<Rightarrow> error + 'b" where
  "bind_err r f = (case r of Inl e \<Rightarrow> Inl e | Inr v \<Rightarrow> f v)"

text \<open>Reading an attribute of an object: \<open>AttributeError\<close> when it was never assigned.\<close>

definition attribute :: "string \<Rightarrow> 'a option \<Rightarrow> error + 'a" where
  "attribute name a = (case a of None \<Rightarrow> Inl (AttributeError name) | Some v \<Rightarrow> Inr v)"

section \<open>The variational linear layer\<close>

text \<open>
  An input tensor: its static shape, where \<open>None\<close> is a dimension that is not known
  when the graph is built, and the entries of each example of the batch, in row-major
  order. The rows are taken to conform to the shape.
\<close>

record tensor =
  t_shape :: "nat option list"
  t_rows :: mat

record VarLinear =
  l_input_shape :: "nat option list option"
  l_use_bias :: bool
  output_size :: nat
  l_prior :: distribution
  l_is_connected :: bool
  l_num_weights :: "nat option"
  l_num_biases :: "nat option"
  l_w_mu :: "mat option"
  l_w_rho :: "mat option"
  l_b_mu :: "vec option"
  l_b_rho :: "vec option"
  l_kl_divergence :: "fval option"

definition VarLinear_init :: "nat \<Rightarrow> distribution \<Rightarrow> bool \<Rightarrow> VarLinear" where
  "VarLinear_init out pr bias =
     \<lparr>l_input_shape = None, l_use_bias = bias, output_size = out, l_prior = pr,
      l_is_connected = False, l_num_weights = None, l_num_biases = None,
      l_w_mu = None, l_w_rho = None, l_b_mu = None, l_b_rho = None,
      l_kl_divergence = None\<rparr>"

text \<open>
  \<^verbatim>\<open>tf.get_variable\<close> inside a Sonnet module: the first call creates the variable from
  its initializer, every later call returns the variable that exists, and raises
  \<open>ValueError\<close> when the shape asked for is not the shape of that variable.
\<close>

definition get_variable :: "'a option \<Rightarrow> ('a \<Rightarrow> bool) \<Rightarrow> 'a \<Rightarrow> error + 'a" where
  "get_variable existing has_shape initial =
     (case existing of
        None \<Rightarrow> Inr initial
      | Some v \<Rightarrow> if has_shape v then Inr v else Inl ValueError)"

definition vec_shape :: "nat \<Rightarrow> vec \<Rightarrow> bool" where
  "vec_shape n v = (length v = n)"

definition mat_shape :: "nat \<Rightarrow> nat \<Rightarrow> mat \<Rightarrow> bool" where
  "mat_shape r c m = (length m = r \<and> list_all (vec_shape c) m)"

definition init_vec :: "(nat \<Rightarrow> real) \<Rightarrow> nat \<Rightarrow> nat \<Rightarrow> vec" where
  "init_vec f off n = map (\<lambda>k. Fin (f k)) [off..<off + n]"

definition init_mat :: "(nat \<Rightarrow> real) \<Rightarrow> nat \<Rightarrow> nat \<Rightarrow> mat" where
  "init_mat f r c = map (\<lambda>i. init_vec f (i * c) c) [0..<r]"

definition rho_init :: "nat \<Rightarrow> real" where
  \<comment> \<open>\<^verbatim>\<open>tf.initializers.constant(-3)\<close>\<close>
  "rho_init k = - 3"

text \<open>
  \<^verbatim>\<open>VarLinear._build\<close>. The Glorot-uniform initializer is the parameter \<open>mu_init\<close>
  (from the shape of a variable to its initial entries). The three shape checks come
  before the first assignment, so that a layer whose call raised there is the layer as
  it was before the call.
\<close>

definition forward_bias ::
  "(nat list \<Rightarrow> nat \<Rightarrow> real) \<Rightarrow> mat \<Rightarrow> VarLinear \<Rightarrow> rng \<Rightarrow> error + (mat \<times> VarLinear \<times> rng)" where
  \<comment> \<open>the branch \<^verbatim>\<open>if self._use_bias:\<close> of \<^verbatim>\<open>_build\<close>\<close>
  "forward_bias mu_init outputs L g =
     (let out = output_size L in
      bind_err (get_variable (l_b_mu L) (vec_shape out) (init_vec (mu_init [out]) 0 out)) (\<lambda>b_mu.
      bind_err (get_variable (l_b_rho L) (vec_shape out) (init_vec rho_init 0 out)) (\<lambda>b_rho.
        let (b, g') = sample_vec b_mu (map softplus b_rho) g in
        bind_err (attribute ''_kl_divergence'' (l_kl_divergence L)) (\<lambda>kl_w.
          Inr (map (\<lambda>row. map2 fadd row b) outputs,
               L\<lparr>l_num_biases := Some out, l_b_mu := Some b_mu, l_b_rho := Some b_rho,
                 l_kl_divergence :=
                   Some (fadd kl_w (kl_sum_vec (l_prior L) b_mu (map softplus b_rho) b))\<rparr>,
               g')))))"

definition forward_weights ::
  "(nat list \<Rightarrow> nat \<Rightarrow> real) \<Rightarrow> tensor \<Rightarrow> nat \<Rightarrow> VarLinear \<Rightarrow> rng \<Rightarrow> error + (mat \<times> VarLinear \<times> rng)" where
  \<comment> \<open>\<^verbatim>\<open>_build\<close> from \<^verbatim>\<open>self._input_shape = input_shape\<close> to \<^verbatim>\<open>outputs = tf.matmul(inputs, w)\<close>\<close>
  "forward_weights mu_init inputs n L g =
     (let out = output_size L in
      bind_err (get_variable (l_w_mu L) (mat_shape n out) (init_mat (mu_init [n, out]) n out)) (\<lambda>w_mu.
      bind_err (get_variable (l_w_rho L) (mat_shape n out) (init_mat rho_init n out)) (\<lambda>w_rho.
        let (w, g') = sample_mat out w_mu (map (map softplus) w_rho) g;
            kl = kl_sum_mat (l_prior L) w_mu (map (map softplus) w_rho) w
        in Inr (matmul (t_rows inputs) w out,
                L\<lparr>l_input_shape := Some (t_shape inputs), l_num_weights := Some (n * out),
                  l_w_mu := Some w_mu, l_w_rho := Some w_rho, l_kl_divergence := Some kl\<rparr>,
                g'))))"

definition check_input_shape :: "tensor \<Rightarrow> VarLinear \<Rightarrow> error + nat" where
  \<comment> \<open>the three checks at the head of \<^verbatim>\<open>_build\<close>; the result is \<^verbatim>\<open>input_shape[1]\<close>\<close>
  "check_input_shape inputs L =
     (let input_shape = t_shape inputs in
      if length input_shape \<noteq> 2 then Inl (NameError ''base'')
      else case input_shape ! 1 of
        None \<Rightarrow> Inl (NameError ''base'')
      | Some n \<Rightarrow>
          (case l_input_shape L of
             None \<Rightarrow> Inr n
           | Some s \<Rightarrow>
               if length s \<le> 1 then Inl IndexError
               else if Some n \<noteq> s ! 1 then Inl (NameError ''base'')
               else Inr n))"

definition VarLinear_build ::
  "(nat list \<Rightarrow> nat \<Rightarrow> real) \<Rightarrow> tensor \<Rightarrow> VarLinear \<Rightarrow> rng \<Rightarrow> error + (mat \<times> VarLinear \<times> rng)" where
  "VarLinear_build mu_init inputs L g =
     bind_err (check_input_shape inputs L) (\<lambda>n.
     bind_err (forward_weights mu_init inputs n L g) (\<lambda>(outputs, L1, g1).
       if l_use_bias L then forward_bias mu_init outputs L1 g1
       else Inr (outputs, L1, g1)))"

text \<open>Calling the module (Sonnet's \<^verbatim>\<open>__call__\<close>): run \<^verbatim>\<open>_build\<close>, then mark the module connected.\<close>

definition VarLinear_call ::
  "(nat list \<Rightarrow> nat \<Rightarrow> real) \<Rightarrow> tensor \<Rightarrow> VarLinear \<Rightarrow> rng \<Rightarrow> error + (mat \<times> VarLinear \<times> rng)" where
  "VarLinear_call mu_init inputs L g =
     (case VarLinear_build mu_init inputs L g of
        Inl e \<Rightarrow> Inl e
      | Inr (y, L', g') \<Rightarrow> Inr (y, L'\<lparr>l_is_connected := True\<rparr>, g'))"

subsection \<open>Properties of a layer\<close>

text \<open>
  Every property starts with \<^verbatim>\<open>self._ensure_is_connected()\<close> and then reads an attribute
  that \<^verbatim>\<open>_build\<close> assigns; an attribute that was never assigned raises
  \<open>AttributeError\<close>.
\<close>

definition ensure_is_connected :: "bool \<Rightarrow> error + unit" where
  "ensure_is_connected c = (if c then Inr () else Inl NotConnectedError)"

definition guarded :: "bool \<Rightarrow> (error + 'a) \<Rightarrow> error + 'a" where
  "guarded c r = bind_err (ensure_is_connected c) (\<lambda>_. r)"

definition kl_divergence :: "VarLinear \<Rightarrow> error + fval" where
  "kl_divergence L = guarded (l_is_connected L) (attribute ''_kl_divergence'' (l_kl_divergence L))"

definition w_mu :: "VarLinear \<Rightarrow> error + mat" where
  "w_mu L = guarded (l_is_connected L) (attribute ''_w_mu'' (l_w_mu L))"

definition w_rho :: "VarLinear \<Rightarrow> error + mat" where
  "w_rho L = guarded (l_is_connected L) (attribute ''_w_rho'' (l_w_rho L))"

definition w_sigma :: "VarLinear \<Rightarrow> error + mat" where
  "w_sigma L = guarded (l_is_connected L)
     (map_sum id (map (map softplus)) (attribute ''_w_rho'' (l_w_rho L)))"

definition b_mu :: "VarLinear \<Rightarrow> error + vec" where
  "b_mu L = guarded (l_is_connected L) (attribute ''_b_mu'' (l_b_mu L))"

definition b_rho :: "VarLinear \<Rightarrow> error + vec" where
  "b_rho L = guarded (l_is_connected L) (attribute ''_b_rho'' (l_b_rho L))"

definition b_sigma :: "VarLinear \<Rightarrow> error + vec" where
  "b_sigma L = guarded (l_is_connected L)
     (map_sum id (map softplus) (attribute ''_b_rho'' (l_b_rho L)))"

subsection \<open>Pruning\<close>

text \<open>
  \<^verbatim>\<open>VarLinear.prune_below_snr\<close>, tensor operation by tensor operation. The flag
  \<^verbatim>\<open>verbose\<close> only prints and is left out.
\<close>

definition snr_of :: "fval \<Rightarrow> fval \<Rightarrow> fval" where
  \<comment> \<open>\<^verbatim>\<open>10. * tf.math.log(tf.abs(mu) / sigma)\<close>\<close>
  "snr_of m s = fmul (Fin 10) (flog (fdiv (fabs m) s))"

definition snr_mask :: "fval \<Rightarrow> vec \<Rightarrow> vec \<Rightarrow> vec" where
  \<comment> \<open>\<^verbatim>\<open>tf.cast(tf.math.greater(snr_tensor, snr), dtype=tf.float32)\<close>\<close>
  "snr_mask snr mu sigma = map (\<lambda>x. cast_bool (fgreater x snr)) (map2 snr_of mu sigma)"

definition prune_below_snr :: "fval \<Rightarrow> VarLinear \<Rightarrow> error + VarLinear" where
  "prune_below_snr snr L =
     guarded (l_is_connected L)
       (bind_err (attribute ''_w_mu'' (l_w_mu L)) (\<lambda>wm.
        bind_err (w_sigma L) (\<lambda>ws.
          let w_mask = map2 (snr_mask snr) wm ws;
              L1 = L\<lparr>l_w_mu := Some (map2 (map2 fmul) wm w_mask),
                     l_w_rho := Some (map (map softplus_inverse) (map2 (map2 fmul) ws w_mask))\<rparr>
          in if l_use_bias L then
               bind_err (attribute ''_b_mu'' (l_b_mu L1)) (\<lambda>bm.
               bind_err (b_sigma L1) (\<lambda>bs.
                 let b_mask = snr_mask snr bm bs
                 in Inr (L1\<lparr>l_b_mu := Some (map2 fmul bm b_mask),
                            l_b_rho := Some (map softplus_inverse (map2 fmul bs b_mask))\<rparr>)))
             else Inr L1)))"



text \<open>The rule the code applies to one entry: the same with the natural logarithm.\<close>

definition prune_entry :: "fval \<Rightarrow> fval \<times> fval \<Rightarrow> fval \<times> fval" where
  "prune_entry t = (\<lambda>(m, r).
     let scale = softplus r;
         mask = cast_bool (fgreater (snr_of m scale) t)
     in (fmul m mask, softplus_inverse (fmul scale mask)))"

section \<open>Networks\<close>

text \<open>
  \<^verbatim>\<open>VarEstimator\<close>, the superclass of every network, with the fields its constructor sets
  and the connection flag of the Sonnet module.
\<close>

record VarEstimator =
  n_layers :: "VarLinear list"
  n_is_training :: bool
  n_prior :: distribution
  n_is_connected :: bool

record VarMNIST = VarEstimator +
  units :: nat

record ReducedVarMNIST = VarEstimator +
  r_w_mus :: "mat list"
  r_w_sigmas :: "mat list"
  r_b_mus :: "vec list"
  r_b_sigmas :: "vec list"
  r_input_indices :: "int list"

definition VarMNIST_init :: "nat \<Rightarrow> distribution \<Rightarrow> VarMNIST" where
  "VarMNIST_init u pr =
     \<lparr>n_layers = [], n_is_training = True, n_prior = pr, n_is_connected = False, units = u\<rparr>"

definition ReducedVarMNIST_init ::
  "int list \<Rightarrow> mat list \<Rightarrow> mat list \<Rightarrow> vec list \<Rightarrow> vec list \<Rightarrow> distribution \<Rightarrow> ReducedVarMNIST" where
  "ReducedVarMNIST_init input_indices w_mus w_sigmas b_mus b_sigmas pr =
     \<lparr>n_layers = [], n_is_training = True, n_prior = pr, n_is_connected = False,
      r_w_mus = w_mus, r_w_sigmas = w_sigmas, r_b_mus = b_mus, r_b_sigmas = b_sigmas,
      r_input_indices = input_indices\<rparr>"

text \<open>A list comprehension over a property that may raise: the first exception ends it.\<close>

fun map_err :: "('a \<Rightarrow> error + 'b) \<Rightarrow> 'a list \<Rightarrow> error + 'b list" where
  "map_err f [] = Inr []"
| "map_err f (x # xs) = bind_err (f x) (\<lambda>y. bind_err (map_err f xs) (\<lambda>ys. Inr (y # ys)))"

definition net_kl_divergence :: "'a VarEstimator_scheme \<Rightarrow> error + fval" where
  "net_kl_divergence N =
     guarded (n_is_connected N)
       (bind_err (map_err kl_divergence (n_layers N)) (\<lambda>kls. Inr (reduce_sum kls)))"

text \<open>\<^verbatim>\<open>tf.concat\<close> of flat tensors; it raises on an empty list of tensors.\<close>

definition tf_concat :: "vec list \<Rightarrow> error + vec" where
  "tf_concat ts = (if ts = [] then Inl ValueError else Inr (concat ts))"

definition mu_vector :: "'a VarEstimator_scheme \<Rightarrow> error + vec" where
  "mu_vector N =
     guarded (n_is_connected N)
       (bind_err (map_err w_mu (n_layers N)) (\<lambda>ws.
        bind_err (map_err b_mu (n_layers N)) (\<lambda>bs.
          tf_concat (map concat ws @ bs))))"

definition sigma_vector :: "'a VarEstimator_scheme \<Rightarrow> error + vec" where
  "sigma_vector N =
     guarded (n_is_connected N)
       (bind_err (map_err w_sigma (n_layers N)) (\<lambda>ws.
        bind_err (map_err b_sigma (n_layers N)) (\<lambda>bs.
          tf_concat (map concat ws @ bs))))"

definition net_prune_below_snr :: "fval \<Rightarrow> 'a VarEstimator_scheme \<Rightarrow> error + 'a VarEstimator_scheme" where
  \<comment> \<open>the loop \<^verbatim>\<open>for layer in self._layers: layer.prune_below_snr(snr, verbose)\<close>\<close>
  "net_prune_below_snr snr N =
     guarded (n_is_connected N)
       (bind_err (map_err (prune_below_snr snr) (n_layers N)) (\<lambda>Ls. Inr (N\<lparr>n_layers := Ls\<rparr>)))"

definition sample_posterior :: "'a VarEstimator_scheme \<Rightarrow> rng \<Rightarrow> error + (vec \<times> rng)" where
  \<comment> \<open>\<^verbatim>\<open>Normal(loc=self.mu_vector, scale=self.sigma_vector).sample()\<close>\<close>
  "sample_posterior N g =
     bind_err (mu_vector N) (\<lambda>mu.
     bind_err (sigma_vector N) (\<lambda>sigma. Inr (sample_vec mu sigma g)))"

subsection \<open>The forward pass of a network\<close>

text \<open>
  \<^verbatim>\<open>snt.BatchFlatten\<close> keeps the batch dimension and merges the others. The rows of a
  tensor already hold the entries of one example each, so only the static shape changes.
\<close>

fun merge_dims :: "nat option list \<Rightarrow> nat option" where
  "merge_dims [] = Some 1"
| "merge_dims (None # ds) = None"
| "merge_dims (Some d # ds) = (case merge_dims ds of None \<Rightarrow> None | Some k \<Rightarrow> Some (d * k))"

definition batch_flatten :: "tensor \<Rightarrow> error + tensor" where
  "batch_flatten t =
     (case t_shape t of
        [] \<Rightarrow> Inl ValueError
      | b # ds \<Rightarrow> Inr (t\<lparr>t_shape := [b, merge_dims ds]\<rparr>))"

text \<open>
  Every call of the \<^verbatim>\<open>_build\<close> of a network constructs its three layers anew. The
  variables of a layer live in the variable scope of the network, so that the layer at
  position \<open>i\<close> of a later call finds the variables of the layer at position \<open>i\<close> of
  the call before.
\<close>

definition new_layer :: "nat \<Rightarrow> distribution \<Rightarrow> VarLinear list \<Rightarrow> nat \<Rightarrow> VarLinear" where
  "new_layer out pr old i =
     (if i < length old
      then (VarLinear_init out pr True)\<lparr>l_w_mu := l_w_mu (old ! i), l_w_rho := l_w_rho (old ! i),
                                         l_b_mu := l_b_mu (old ! i), l_b_rho := l_b_rho (old ! i)\<rparr>
      else VarLinear_init out pr True)"

definition activation :: "(fval \<Rightarrow> fval) \<Rightarrow> tensor \<Rightarrow> nat \<Rightarrow> mat \<Rightarrow> tensor" where
  \<comment> \<open>the output of a layer of width \<open>out\<close> on the batch of \<open>t\<close>, under an activation\<close>
  "activation f t out y = \<lparr>t_shape = [t_shape t ! 0, Some out], t_rows = map (map f) y\<rparr>"

text \<open>
  The \<^verbatim>\<open>_build\<close> shared by \<^verbatim>\<open>VarMNIST\<close>, \<^verbatim>\<open>VarRegression\<close> and \<^verbatim>\<open>VarMushroomRL\<close>,
  which differ in the width \<open>out\<close> of the last layer only (10, 1 and 1), followed by
  what Sonnet's \<^verbatim>\<open>__call__\<close> does after it. \<open>inits i\<close> is the initializer of the means
  of layer \<open>i\<close>.
\<close>

definition network_call ::
  "nat \<Rightarrow> nat \<Rightarrow> (nat \<Rightarrow> nat list \<Rightarrow> nat \<Rightarrow> real) \<Rightarrow> tensor \<Rightarrow> 'a VarEstimator_scheme \<Rightarrow> rng
     \<Rightarrow> error + (mat \<times> 'a VarEstimator_scheme \<times> rng)" where
  "network_call u out inits inputs N g =
     bind_err (batch_flatten inputs) (\<lambda>flattened.
     bind_err (VarLinear_call (inits 0) flattened (new_layer u (n_prior N) (n_layers N) 0) g)
       (\<lambda>(dense1, linear_1, g1).
     bind_err (VarLinear_call (inits 1) (activation relu flattened u dense1)
                 (new_layer u (n_prior N) (n_layers N) 1) g1)
       (\<lambda>(dense2, linear_2, g2).
     bind_err (VarLinear_call (inits 2) (activation relu flattened u dense2)
                 (new_layer out (n_prior N) (n_layers N) 2) g2)
       (\<lambda>(logits, linear_out, g3).
          Inr (logits, N\<lparr>n_layers := [linear_1, linear_2, linear_out], n_is_connected := True\<rparr>,
               g3)))))"

definition VarMNIST_call ::
  "(nat \<Rightarrow> nat list \<Rightarrow> nat \<Rightarrow> real) \<Rightarrow> tensor \<Rightarrow> VarMNIST \<Rightarrow> rng \<Rightarrow> error + (mat \<times> VarMNIST \<times> rng)" where
  "VarMNIST_call inits inputs N g = network_call (units N) 10 inits inputs N g"

subsection \<open>Compression\<close>

text \<open>
  \<^verbatim>\<open>eliminate_dead_neurons\<close> belongs to the module \<^verbatim>\<open>compression\<close>, which is not among
  the sources; it is the parameter \<open>elim\<close> of \<open>compress\<close>, with \<open>None\<close> for a call
  that raises. What a Python call returns is a value of any type, so the result of
  \<open>compress\<close> is a \<open>pyvalue\<close>. The second component of the result is the network after
  the call.
\<close>

type_synonym elimination =
  "mat list \<Rightarrow> mat list \<Rightarrow> vec list \<Rightarrow> vec list \<Rightarrow> (fval \<Rightarrow> fval) list
     \<Rightarrow> (int list \<times> mat list \<times> mat list \<times> vec list \<times> vec list) option"

datatype pyvalue = PyModel ReducedVarMNIST | PyTuple "pyvalue list"

definition compress ::
  "elimination \<Rightarrow> 'a VarEstimator_scheme \<Rightarrow> (error + pyvalue) \<times> 'a VarEstimator_scheme" where
  "compress elim N =
     (bind_err (map_err w_mu (n_layers N)) (\<lambda>wm.
      bind_err (map_err w_sigma (n_layers N)) (\<lambda>ws.
      bind_err (map_err b_mu (n_layers N)) (\<lambda>bm.
      bind_err (map_err b_sigma (n_layers N)) (\<lambda>bs.
        case elim wm ws bm bs [relu, relu, \<lambda>x. x] of
          None \<Rightarrow> Inl EliminationError
        | Some (input_indices, w_mus, w_sigmas, b_mus, b_sigmas) \<Rightarrow>
            Inr (PyModel (ReducedVarMNIST_init input_indices w_mus w_sigmas b_mus b_sigmas
                            (n_prior N))))))),
      N)"

text \<open>What the specification says \<open>compress\<close> returns: a pair of two values.\<close>

fun is_pair :: "pyvalue \<Rightarrow> bool" where
  "is_pair (PyTuple [a, b]) = True"
| "is_pair _ = False"

subsection \<open>The mask of a reduced network\<close>

definition reshape_rows :: "nat \<Rightarrow> nat \<Rightarrow> 'a list \<Rightarrow> 'a list list" where
  "reshape_rows r c xs = map (\<lambda>i. take c (drop (i * c) xs)) [0..<r]"

definition index_in_bounds :: "nat \<Rightarrow> int \<Rightarrow> bool" where
  \<comment> \<open>NumPy accepts the indices \<open>-n \<le> i < n\<close> and counts the negative ones from the end\<close>
  "index_in_bounds n i = (- int n \<le> i \<and> i < int n)"

definition assign_ones :: "vec \<Rightarrow> int list \<Rightarrow> vec" where
  \<comment> \<open>\<^verbatim>\<open>mask[idx] = 1\<close> for indices that are in bounds\<close>
  "assign_ones zeros idx = foldl (\<lambda>m i. m[nat (i mod int (length zeros)) := Fin 1]) zeros idx"

definition get_unused_input_mask :: "ReducedVarMNIST \<Rightarrow> error + mat" where
  "get_unused_input_mask R =
     (let zeros = replicate (28 * 28) (Fin 0) in
      if list_all (index_in_bounds (28 * 28)) (r_input_indices R)
      then Inr (reshape_rows 28 28 (assign_ones zeros (r_input_indices R)))
      else Inl IndexError)"

text \<open>The mask in the words of the specification: \<open>1\<close> marks a discarded position.\<close>

definition spec_unused_input_mask :: "int list \<Rightarrow> mat" where
  "spec_unused_input_mask idx =
     reshape_rows 28 28
       (map (\<lambda>k. if list_ex (\<lambda>i. nat (i mod 784) = k) idx then Fin 0 else Fin 1) [0..<784])"

section \<open>Priors\<close>






section \<open>Entry-wise pruning and example objects\<close>

text \<open>The pairs of new mean and new raw scale of a vector and of a matrix of parameters.\<close>

definition prune_vec :: "fval \<Rightarrow> vec \<Rightarrow> vec \<Rightarrow> (fval \<times> fval) list" where
  "prune_vec t mu rho = map (prune_entry t) (zip mu rho)"

definition prune_mat :: "fval \<Rightarrow> mat \<Rightarrow> mat \<Rightarrow> (fval \<times> fval) list list" where
  "prune_mat t mu rho = map2 (prune_vec t) mu rho"

text \<open>
  A built layer with one weight of mean \<open>10\<close> and scale \<open>softplus (ln (e - 1)) = 1\<close>
  and one bias of mean \<open>0\<close>, and the same layer after pruning at threshold \<open>10\<close>.
\<close>

definition example_layer :: VarLinear where
  "example_layer =
     \<lparr>l_input_shape = Some [Some 1, Some 1], l_use_bias = True, output_size = 1,
      l_prior = Normal (Fin 0) (Fin 1), l_is_connected = True,
      l_num_weights = Some 1, l_num_biases = Some 1,
      l_w_mu = Some [[Fin 10]], l_w_rho = Some [[Fin (ln (exp 1 - 1))]],
      l_b_mu = Some [Fin 0], l_b_rho = Some [Fin (- 3)],
      l_kl_divergence = Some (Fin 0)\<rparr>"



text \<open>A reduced network that retains the first input position only.\<close>

definition example_reduced :: ReducedVarMNIST where
  "example_reduced = ReducedVarMNIST_init [0] [] [] [] [] (Normal (Fin 0) (Fin 1))"



definition example_rng :: rng where
  "example_rng = \<lparr>noise = (\<lambda>d k. 0), draws = 0\<rparr>"

text \<open>Batches of four examples with five and with six features.\<close>

definition example_batch5 :: tensor where
  "example_batch5 = \<lparr>t_shape = [Some 4, Some 5], t_rows = replicate 4 (replicate 5 (Fin 1))\<rparr>"

definition example_batch6 :: tensor where
  "example_batch6 = \<lparr>t_shape = [Some 4, Some 6], t_rows = replicate 4 (replicate 6 (Fin 1))\<rparr>"

text \<open>What the specification says \<open>compress\<close> returns: a pair, not an exception.\<close>

fun returns_pair :: "error + pyvalue \<Rightarrow> bool" where
  "returns_pair (Inr v) = is_pair v"
| "returns_pair (Inl e) = False"

text \<open>
  A built network of three built layers, and an elimination that removes nothing and
  retains the first input position.
\<close>

definition example_network :: VarMNIST where
  "example_network =
     \<lparr>n_layers = [example_layer, example_layer, example_layer], n_is_training = True,
      n_prior = Normal (Fin 0) (Fin 1), n_is_connected = True, units = 1\<rparr>"

definition example_elimination :: elimination where
  "example_elimination w_mus w_sigmas b_mus b_sigmas activations =
     Some ([0], w_mus, w_sigmas, b_mus, b_sigmas)"

text \<open>
  The parameters of a list of layers as pairs of mean and raw scale, in the order
  of the parameter vectors: the weights of every layer, row by row, then the biases of
  every layer. A layer is aligned when its means and its raw scales have the same shape.
\<close>

definition weight_parameters :: "VarLinear \<Rightarrow> (fval \<times> fval) list" where
  "weight_parameters L =
     (case (l_w_mu L, l_w_rho L) of
        (Some wm, Some wr) \<Rightarrow> concat (map2 zip wm wr)
      | _ \<Rightarrow> [])"

definition bias_parameters :: "VarLinear \<Rightarrow> (fval \<times> fval) list" where
  "bias_parameters L =
     (case (l_b_mu L, l_b_rho L) of
        (Some bm, Some br) \<Rightarrow> zip bm br
      | _ \<Rightarrow> [])"

definition parameters :: "VarLinear list \<Rightarrow> (fval \<times> fval) list" where
  "parameters Ls = concat (map weight_parameters Ls) @ concat (map bias_parameters Ls)"

definition aligned :: "VarLinear \<Rightarrow> bool" where
  "aligned L =
     (case (l_w_mu L, l_w_rho L, l_b_mu L, l_b_rho L) of
        (Some wm, Some wr, Some bm, Some br) \<Rightarrow>
          list_all2 (\<lambda>a b. length a = length b) wm wr \<and> length bm = length br
      | _ \<Rightarrow> False)"

definition built_layer :: "VarLinear \<Rightarrow> bool" where
  "built_layer L = (l_is_connected L \<and> aligned L \<and> l_kl_divergence L \<noteq> None)"

section \<open>Facts about the arithmetic\<close>












text \<open>The tensor operations of the layer act entry by entry.\<close>

lemma masked_mean_vec:
  "map2 fmul mu (snr_mask t mu (map softplus rho)) = map fst (prune_vec t mu rho)"
proof (induction mu arbitrary: rho)
  case Nil
  then show ?case by (simp add: snr_mask_def prune_vec_def)
next
  case (Cons m mu)
  then show ?case
    by (cases rho) (simp_all add: snr_mask_def prune_vec_def prune_entry_def Let_def)
qed

lemma masked_scale_vec:
  "map softplus_inverse (map2 fmul (map softplus rho) (snr_mask t mu (map softplus rho)))
     = map snd (prune_vec t mu rho)"
proof (induction mu arbitrary: rho)
  case Nil
  then show ?case by (simp add: snr_mask_def prune_vec_def)
next
  case (Cons m mu)
  then show ?case
    by (cases rho) (simp_all add: snr_mask_def prune_vec_def prune_entry_def Let_def)
qed

lemma masked_mean_mat:
  "map2 (map2 fmul) mu (map2 (snr_mask t) mu (map (map softplus) rho))
     = map (map fst) (prune_mat t mu rho)"
proof (induction mu arbitrary: rho)
  case Nil
  then show ?case by (simp add: prune_mat_def)
next
  case (Cons m mu)
  then show ?case
    by (cases rho) (simp_all add: prune_mat_def masked_mean_vec del: map_map)
qed

lemma masked_scale_mat:
  "map (map softplus_inverse)
     (map2 (map2 fmul) (map (map softplus) rho) (map2 (snr_mask t) mu (map (map softplus) rho)))
     = map (map snd) (prune_mat t mu rho)"
proof (induction mu arbitrary: rho)
  case Nil
  then show ?case by (simp add: prune_mat_def)
next
  case (Cons m mu)
  then show ?case
    by (cases rho) (simp_all add: prune_mat_def masked_scale_vec del: map_map)
qed



lemma prune_below_snr_result:
  assumes "l_is_connected L" "l_w_mu L = Some wm" "l_w_rho L = Some wr"
    and "l_use_bias L \<Longrightarrow> l_b_mu L = Some bm \<and> l_b_rho L = Some br"
  shows "prune_below_snr t L =
     Inr (if l_use_bias L
          then L\<lparr>l_w_mu := Some (map (map fst) (prune_mat t wm wr)),
                 l_w_rho := Some (map (map snd) (prune_mat t wm wr)),
                 l_b_mu := Some (map fst (prune_vec t bm br)),
                 l_b_rho := Some (map snd (prune_vec t bm br))\<rparr>
          else L\<lparr>l_w_mu := Some (map (map fst) (prune_mat t wm wr)),
                 l_w_rho := Some (map (map snd) (prune_mat t wm wr))\<rparr>)"
  using assms
  by (simp add: prune_below_snr_def guarded_def ensure_is_connected_def bind_err_def
      attribute_def w_sigma_def b_sigma_def Let_def masked_mean_mat masked_scale_mat
      masked_mean_vec masked_scale_vec del: map_map)








section \<open>Pruning\<close>











section \<open>The mask of a reduced network\<close>

lemma assign_fold:
  assumes "length m = n"
  shows "length (foldl (\<lambda>m i. m[nat (i mod int n) := Fin 1]) m idx) = n
     \<and> (\<forall>k<n. foldl (\<lambda>m i. m[nat (i mod int n) := Fin 1]) m idx ! k =
            (if \<exists>i\<in>set idx. nat (i mod int n) = k then Fin 1 else m ! k))"
  using assms
proof (induction idx arbitrary: m)
  case Nil
  then show ?case by simp
next
  case (Cons i idx)
  have len: "length (m[nat (i mod int n) := Fin 1]) = n"
    using Cons.prems by simp
  show ?case
    using Cons.IH [OF len] Cons.prems by (auto simp: nth_list_update)
qed

lemma assign_ones_nth:
  "length (assign_ones z idx) = length z"
  "k < length z \<Longrightarrow>
     assign_ones z idx ! k =
       (if \<exists>i\<in>set idx. nat (i mod int (length z)) = k then Fin 1 else z ! k)"
  using assign_fold [of z "length z" idx] by (simp_all add: assign_ones_def)

lemma reshape_rows_nth:
  assumes "length xs = r * c" "i < r" "j < c"
  shows "length (reshape_rows r c xs) = r" "length (reshape_rows r c xs ! i) = c"
    "reshape_rows r c xs ! i ! j = xs ! (i * c + j)"
proof -
  have "i * c + c \<le> r * c"
  proof -
    have "Suc i * c \<le> r * c" using assms(2) by (intro mult_le_mono1) simp
    then show ?thesis by (simp add: add.commute)
  qed
  then have le: "i * c + c \<le> length xs" using assms(1) by simp
  show "length (reshape_rows r c xs) = r" by (simp add: reshape_rows_def)
  show "length (reshape_rows r c xs ! i) = c"
    using assms(2) le by (simp add: reshape_rows_def)
  show "reshape_rows r c xs ! i ! j = xs ! (i * c + j)"
    using assms(2,3) le by (simp add: reshape_rows_def)
qed

lemma mask_entries:
  assumes "list_all (index_in_bounds (28 * 28)) (r_input_indices R)" "r < 28" "c < 28"
  shows "get_unused_input_mask R =
           Inr (reshape_rows 28 28 (assign_ones (replicate 784 (Fin 0)) (r_input_indices R)))"
    and "reshape_rows 28 28 (assign_ones (replicate 784 (Fin 0)) (r_input_indices R)) ! r ! c =
           (if \<exists>i\<in>set (r_input_indices R). nat (i mod 784) = r * 28 + c then Fin 1 else Fin 0)"
proof -
  show "get_unused_input_mask R =
           Inr (reshape_rows 28 28 (assign_ones (replicate 784 (Fin 0)) (r_input_indices R)))"
    using assms(1) by (simp add: get_unused_input_mask_def)
  have k: "r * 28 + c < 784" using assms(2,3) by simp
  have "reshape_rows 28 28 (assign_ones (replicate 784 (Fin 0)) (r_input_indices R)) ! r ! c
      = assign_ones (replicate 784 (Fin 0)) (r_input_indices R) ! (r * 28 + c)"
    using assms(2,3) by (intro reshape_rows_nth) (simp_all add: assign_ones_nth)
  also have "\<dots> = (if \<exists>i\<in>set (r_input_indices R). nat (i mod 784) = r * 28 + c
                     then Fin 1 else Fin 0)"
    using k assign_ones_nth(2) [of "r * 28 + c" "replicate 784 (Fin 0)" "r_input_indices R"]
    by simp
  finally show "reshape_rows 28 28 (assign_ones (replicate 784 (Fin 0)) (r_input_indices R)) ! r ! c =
           (if \<exists>i\<in>set (r_input_indices R). nat (i mod 784) = r * 28 + c then Fin 1 else Fin 0)" .
qed

lemma spec_mask_entry:
  assumes "r < 28" "c < 28"
  shows "spec_unused_input_mask idx ! r ! c =
           (if \<exists>i\<in>set idx. nat (i mod 784) = r * 28 + c then Fin 0 else Fin 1)"
proof -
  have k: "r * 28 + c < 784" using assms by simp
  have "spec_unused_input_mask idx ! r ! c =
      map (\<lambda>k. if list_ex (\<lambda>i. nat (i mod 784) = k) idx then Fin 0 else Fin 1) [0..<784]
        ! (r * 28 + c)"
    unfolding spec_unused_input_mask_def using assms by (intro reshape_rows_nth) simp_all
  also have "\<dots> = (if \<exists>i\<in>set idx. nat (i mod 784) = r * 28 + c then Fin 0 else Fin 1)"
    using k by (simp add: list_ex_iff del: upt_Suc)
  finally show ?thesis .
qed

text \<open>
  Claim C9, as the code has it. When every retained index is a valid position of a
  flattened example (\<open>-784 \<le> i < 784\<close>, negative indices counting from the end),
  \<^verbatim>\<open>get_unused_input_mask()\<close> returns a mask of 28 rows of 28 entries, the shape of one
  raw input example, whose entry at row \<open>r\<close> and column \<open>c\<close> is \<open>1\<close> when position
  \<open>28 r + c\<close> is one of the retained positions \<open>input_indices\<close> and \<open>0\<close> when it
  was discarded.
\<close>

theorem get_unused_input_mask_marks_retained:
  assumes "list_all (index_in_bounds (28 * 28)) (r_input_indices R)"
  shows "\<exists>m. get_unused_input_mask R = Inr m \<and> length m = 28
     \<and> (\<forall>r<28. length (m ! r) = 28)
     \<and> (\<forall>r<28. \<forall>c<28. m ! r ! c =
           (if \<exists>i\<in>set (r_input_indices R). nat (i mod 784) = r * 28 + c then Fin 1
            else Fin 0))"
proof -
  let ?m = "reshape_rows 28 28 (assign_ones (replicate 784 (Fin 0)) (r_input_indices R))"
  have "get_unused_input_mask R = Inr ?m"
    using assms by (simp add: get_unused_input_mask_def)
  moreover have "length ?m = 28" by (simp add: reshape_rows_def)
  moreover have "length (?m ! r) = 28" if "r < 28" for r
    using that by (intro reshape_rows_nth(2) [where j = 0]) (simp_all add: assign_ones_nth)
  moreover have "?m ! r ! c =
           (if \<exists>i\<in>set (r_input_indices R). nat (i mod 784) = r * 28 + c then Fin 1
            else Fin 0)" if "r < 28" "c < 28" for r c
    using mask_entries(2) [OF assms that] .
  ultimately show ?thesis by blast
qed

theorem get_unused_input_mask_marks_retained_witness:
  "\<exists>m. get_unused_input_mask example_reduced = Inr m \<and> m ! 0 ! 0 = Fin 1 \<and> m ! 0 ! 1 = Fin 0"
proof -
  have "list_all (index_in_bounds (28 * 28)) (r_input_indices example_reduced)"
    by (simp add: example_reduced_def ReducedVarMNIST_init_def index_in_bounds_def)
  from get_unused_input_mask_marks_retained [OF this]
  obtain m where m: "get_unused_input_mask example_reduced = Inr m"
    and e: "\<forall>r<28. \<forall>c<28. m ! r ! c =
           (if \<exists>i\<in>set (r_input_indices example_reduced). nat (i mod 784) = r * 28 + c
            then Fin 1 else Fin 0)"
    by blast
  have "m ! 0 ! 0 = Fin 1" "m ! 0 ! 1 = Fin 0"
    using e by (simp_all add: example_reduced_def ReducedVarMNIST_init_def)
  with m show ?thesis by blast
qed

theorem get_unused_input_mask_counterexample:
  "get_unused_input_mask example_reduced \<noteq> Inr (spec_unused_input_mask [0])"
proof
  assume a: "get_unused_input_mask example_reduced = Inr (spec_unused_input_mask [0])"
  have b: "list_all (index_in_bounds (28 * 28)) (r_input_indices example_reduced)"
    by (simp add: example_reduced_def ReducedVarMNIST_init_def index_in_bounds_def)
  have "spec_unused_input_mask [0] ! 0 ! 0 = Fin 1"
    using mask_entries [OF b, of 0 0] a
    by (simp add: example_reduced_def ReducedVarMNIST_init_def)
  moreover have "spec_unused_input_mask [0] ! 0 ! 0 = Fin 0"
    using spec_mask_entry [of 0 0 "[0]"] by simp
  ultimately show False by simp
qed

section \<open>Priors\<close>










section \<open>The forward pass of a layer\<close>

lemma VarLinear_build_InrD:
  assumes "VarLinear_build mu_init inputs L g = Inr (y, L', g')"
  shows "\<exists>n wm wr. check_input_shape inputs L = Inr n
     \<and> get_variable (l_w_mu L) (mat_shape n (output_size L))
           (init_mat (mu_init [n, output_size L]) n (output_size L)) = Inr wm
     \<and> get_variable (l_w_rho L) (mat_shape n (output_size L))
           (init_mat rho_init n (output_size L)) = Inr wr
     \<and> (let out = output_size L;
             w = sample_rows (noise g (draws g)) out wm (map (map softplus) wr);
             kl_w = kl_sum_mat (l_prior L) wm (map (map softplus) wr) w;
             L1 = L\<lparr>l_input_shape := Some (t_shape inputs), l_num_weights := Some (n * out),
                    l_w_mu := Some wm, l_w_rho := Some wr, l_kl_divergence := Some kl_w\<rparr>
         in if l_use_bias L
            then \<exists>bm br.
                   get_variable (l_b_mu L) (vec_shape out) (init_vec (mu_init [out]) 0 out) = Inr bm
                 \<and> get_variable (l_b_rho L) (vec_shape out) (init_vec rho_init 0 out) = Inr br
                 \<and> (let b = sample_entries (noise g (Suc (draws g))) 0 bm (map softplus br)
                    in y = map (\<lambda>row. map2 fadd row b) (matmul (t_rows inputs) w out)
                     \<and> L' = L1\<lparr>l_num_biases := Some out, l_b_mu := Some bm, l_b_rho := Some br,
                                 l_kl_divergence :=
                                   Some (fadd kl_w (kl_sum_vec (l_prior L) bm (map softplus br) b))\<rparr>
                     \<and> g' = g\<lparr>draws := draws g + 2\<rparr>)
            else y = matmul (t_rows inputs) w out \<and> L' = L1 \<and> g' = g\<lparr>draws := draws g + 1\<rparr>)"
  using assms
  by (auto simp: VarLinear_build_def forward_weights_def forward_bias_def bind_err_def Let_def
      sample_mat_def sample_vec_def attribute_def split: sum.splits if_splits prod.splits)

lemma VarLinear_call_Inr:
  "VarLinear_call mu_init inputs L g = Inr (y, L', g') \<longleftrightarrow>
     (\<exists>L1. VarLinear_build mu_init inputs L g = Inr (y, L1, g') \<and> L' = L1\<lparr>l_is_connected := True\<rparr>)"
  by (auto simp: VarLinear_call_def split: sum.splits)

lemma VarLinear_call_fresh:
  assumes "t_shape inputs = [b, Some n]"
  shows "\<exists>y L' g'. VarLinear_call mu_init inputs (VarLinear_init out pr bias) g = Inr (y, L', g')"
  using assms
  by (simp add: VarLinear_call_def VarLinear_build_def check_input_shape_def VarLinear_init_def
      forward_weights_def forward_bias_def get_variable_def bind_err_def Let_def
      sample_mat_def sample_vec_def attribute_def)



lemma VarLinear_call_state:
  assumes "VarLinear_call mu_init inputs L g = Inr (y, L', g')"
  shows "l_is_connected L'" "l_input_shape L' = Some (t_shape inputs)"
    "l_use_bias L' = l_use_bias L" "output_size L' = output_size L" "l_prior L' = l_prior L"
    "\<exists>k. l_kl_divergence L' = Some k"
    "\<exists>wm wr. l_w_mu L' = Some wm \<and> l_w_rho L' = Some wr"
    "l_use_bias L \<Longrightarrow> \<exists>bm br. l_b_mu L' = Some bm \<and> l_b_rho L' = Some br"
proof -
  from assms obtain L1 where b: "VarLinear_build mu_init inputs L g = Inr (y, L1, g')"
    and L': "L' = L1\<lparr>l_is_connected := True\<rparr>"
    by (auto simp: VarLinear_call_Inr)
  note d = VarLinear_build_InrD [OF b]
  show "l_is_connected L'" by (simp add: L')
  show "l_input_shape L' = Some (t_shape inputs)"
    using d by (cases "l_use_bias L") (auto simp: L' Let_def)
  show "l_use_bias L' = l_use_bias L"
    using d by (cases "l_use_bias L") (auto simp: L' Let_def)
  show "output_size L' = output_size L"
    using d by (cases "l_use_bias L") (auto simp: L' Let_def)
  show "l_prior L' = l_prior L"
    using d by (cases "l_use_bias L") (auto simp: L' Let_def)
  show "\<exists>k. l_kl_divergence L' = Some k"
    using d by (cases "l_use_bias L") (auto simp: L' Let_def)
  show "\<exists>wm wr. l_w_mu L' = Some wm \<and> l_w_rho L' = Some wr"
    using d by (cases "l_use_bias L") (auto simp: L' Let_def)
  show "\<exists>bm br. l_b_mu L' = Some bm \<and> l_b_rho L' = Some br" if "l_use_bias L"
    using d that by (auto simp: L' Let_def)
qed

section \<open>Shape errors\<close>

lemma check_input_shape_cases:
  "check_input_shape inputs L =
     (if length (t_shape inputs) \<noteq> 2 \<or> t_shape inputs ! 1 = None then Inl (NameError ''base'')
      else case l_input_shape L of
             None \<Rightarrow> Inr (the (t_shape inputs ! 1))
           | Some s \<Rightarrow>
               if length s \<le> 1 then Inl IndexError
               else if t_shape inputs ! 1 \<noteq> s ! 1 then Inl (NameError ''base'')
               else Inr (the (t_shape inputs ! 1)))"
  by (auto simp: check_input_shape_def Let_def split: option.splits)

text \<open>
  Claim C6, at the code. In each of the three cases of the claim (the rank of the input
  is not 2, its last dimension is not known, or its last dimension differs from the
  width that an earlier pass has fixed) the forward pass raises, and the layer is not
  changed; but the exception is \<open>NameError\<close> for the name \<^verbatim>\<open>base\<close>, which the module
  does not import, and not the shape error that the \<^verbatim>\<open>raise\<close> statements spell out.
\<close>

theorem shape_check_raises_NameError:
  assumes "length (t_shape inputs) \<noteq> 2 \<or> t_shape inputs ! 1 = None
     \<or> (\<exists>s. l_input_shape L = Some s \<and> length s = 2 \<and> t_shape inputs ! 1 \<noteq> s ! 1)"
  shows "VarLinear_call mu_init inputs L g = Inl (NameError ''base'')
     \<and> VarLinear_call mu_init inputs L g \<noteq> Inl IncompatibleShapeError"
  using assms
  by (auto simp: VarLinear_call_def VarLinear_build_def bind_err_def check_input_shape_cases)

theorem shape_check_raises_NameError_witness:
  "\<exists>y L5 g5. VarLinear_call (\<lambda>s k. 0) example_batch5
        (VarLinear_init 2 (Normal (Fin 0) (Fin 1)) True) example_rng = Inr (y, L5, g5)
     \<and> VarLinear_call (\<lambda>s k. 0) example_batch6 L5 g5 = Inl (NameError ''base'')"
proof -
  have sh: "t_shape example_batch5 = [Some 4, Some 5]"
    by (simp add: example_batch5_def)
  from VarLinear_call_fresh [OF sh]
  obtain y L5 g5 where c: "VarLinear_call (\<lambda>s k. 0) example_batch5
        (VarLinear_init 2 (Normal (Fin 0) (Fin 1)) True) example_rng = Inr (y, L5, g5)"
    by blast
  have "l_input_shape L5 = Some [Some 4, Some 5]"
    using VarLinear_call_state(2) [OF c] sh by simp
  then have "\<exists>s. l_input_shape L5 = Some s \<and> length s = 2 \<and> t_shape example_batch6 ! 1 \<noteq> s ! 1"
    by (simp add: example_batch6_def)
  then have "VarLinear_call (\<lambda>s k. 0) example_batch6 L5 g5 = Inl (NameError ''base'')"
    using shape_check_raises_NameError [of example_batch6 L5] by blast
  with c show ?thesis by blast
qed

section \<open>Use before the first forward pass\<close>

lemma unbuilt_layer_raises:
  assumes "\<not> l_is_connected L"
  shows "kl_divergence L = Inl NotConnectedError" "w_mu L = Inl NotConnectedError"
    "w_rho L = Inl NotConnectedError" "w_sigma L = Inl NotConnectedError"
    "b_mu L = Inl NotConnectedError" "b_rho L = Inl NotConnectedError"
    "b_sigma L = Inl NotConnectedError" "prune_below_snr t L = Inl NotConnectedError"
  using assms
  by (simp_all add: kl_divergence_def w_mu_def w_rho_def w_sigma_def b_mu_def b_rho_def
      b_sigma_def prune_below_snr_def guarded_def ensure_is_connected_def bind_err_def)

lemma unbuilt_network_raises:
  assumes "\<not> n_is_connected N"
  shows "net_kl_divergence N = Inl NotConnectedError" "mu_vector N = Inl NotConnectedError"
    "sigma_vector N = Inl NotConnectedError" "net_prune_below_snr t N = Inl NotConnectedError"
    "sample_posterior N g = Inl NotConnectedError"
  using assms
  by (simp_all add: net_kl_divergence_def mu_vector_def sigma_vector_def
      net_prune_below_snr_def sample_posterior_def guarded_def ensure_is_connected_def
      bind_err_def)

lemma built_layer_reads:
  assumes "VarLinear_call mu_init inputs L g = Inr (y, L', g')"
  shows "\<exists>k wm wr ws. kl_divergence L' = Inr k \<and> w_mu L' = Inr wm \<and> w_rho L' = Inr wr
            \<and> w_sigma L' = Inr ws"
    and "l_use_bias L \<Longrightarrow> \<exists>bm br bs L2. b_mu L' = Inr bm \<and> b_rho L' = Inr br
            \<and> b_sigma L' = Inr bs \<and> prune_below_snr t L' = Inr L2"
    and "\<not> l_use_bias L \<Longrightarrow> \<exists>L2. prune_below_snr t L' = Inr L2"
proof -
  note s = VarLinear_call_state [OF assms]
  from s(6,7) obtain k wm wr where
    k: "l_kl_divergence L' = Some k" "l_w_mu L' = Some wm" "l_w_rho L' = Some wr"
    by blast
  show "\<exists>k wm wr ws. kl_divergence L' = Inr k \<and> w_mu L' = Inr wm \<and> w_rho L' = Inr wr
            \<and> w_sigma L' = Inr ws"
    using s(1) k
    by (simp add: kl_divergence_def w_mu_def w_rho_def w_sigma_def guarded_def
        ensure_is_connected_def bind_err_def attribute_def)
  show "\<exists>bm br bs L2. b_mu L' = Inr bm \<and> b_rho L' = Inr br
            \<and> b_sigma L' = Inr bs \<and> prune_below_snr t L' = Inr L2" if "l_use_bias L"
  proof -
    from s(8) [OF that] obtain bm br where b: "l_b_mu L' = Some bm" "l_b_rho L' = Some br"
      by blast
    have "\<exists>L2. prune_below_snr t L' = Inr L2"
      using prune_below_snr_result [of L' wm wr bm br t] s(1) k b by simp
    then show ?thesis
      using s(1) b
      by (simp add: b_mu_def b_rho_def b_sigma_def guarded_def ensure_is_connected_def
          bind_err_def attribute_def)
  qed
  show "\<exists>L2. prune_below_snr t L' = Inr L2" if "\<not> l_use_bias L"
    using prune_below_snr_result [of L' wm wr undefined undefined t] s(1,3) k that by simp
qed

text \<open>
  A layer constructed with \<^verbatim>\<open>use_bias=False\<close> never assigns its bias attributes, so
  that its bias properties raise \<open>AttributeError\<close> also after a forward pass. The
  networks of this module construct every layer with a bias.
\<close>

lemma bias_free_layer_raises:
  assumes "VarLinear_call mu_init inputs (VarLinear_init out pr False) g = Inr (y, L', g')"
  shows "b_mu L' = Inl (AttributeError ''_b_mu'')" "b_sigma L' = Inl (AttributeError ''_b_rho'')"
proof -
  from assms obtain L1 where
    b: "VarLinear_build mu_init inputs (VarLinear_init out pr False) g = Inr (y, L1, g')"
    and L': "L' = L1\<lparr>l_is_connected := True\<rparr>"
    by (auto simp: VarLinear_call_Inr)
  have "l_b_mu L1 = None \<and> l_b_rho L1 = None"
    using VarLinear_build_InrD [OF b] by (auto simp: Let_def VarLinear_init_def)
  then show "b_mu L' = Inl (AttributeError ''_b_mu'')"
    "b_sigma L' = Inl (AttributeError ''_b_rho'')"
    by (simp_all add: L' b_mu_def b_sigma_def guarded_def ensure_is_connected_def bind_err_def
        attribute_def)
qed

text \<open>
  Claim C5, at the code. \<^verbatim>\<open>compress\<close> is the one operation of the claim that does not
  start with \<^verbatim>\<open>self._ensure_is_connected()\<close>. On a network that was never called its
  list of layers is empty, so no property of a layer is read either:
  \<^verbatim>\<open>eliminate_dead_neurons\<close> is called on four empty lists and, when it returns, a
  reduced model is built from its result. The not-yet-built error is never raised.
\<close>

theorem compress_unbuilt_not_guarded:
  "fst (compress elim (VarMNIST_init u pr)) =
     (case elim [] [] [] [] [relu, relu, \<lambda>x. x] of
        None \<Rightarrow> Inl EliminationError
      | Some (input_indices, w_mus, w_sigmas, b_mus, b_sigmas) \<Rightarrow>
          Inr (PyModel (ReducedVarMNIST_init input_indices w_mus w_sigmas b_mus b_sigmas pr)))
   \<and> fst (compress elim (VarMNIST_init u pr)) \<noteq> Inl NotConnectedError
   \<and> \<not> n_is_connected (VarMNIST_init u pr)"
  by (simp add: compress_def VarMNIST_init_def bind_err_def split: option.splits)

section \<open>Networks\<close>

lemma map_err_Inr:
  assumes "\<And>x. x \<in> set xs \<Longrightarrow> f x = Inr (h x)"
  shows "map_err f xs = Inr (map h xs)"
  using assms by (induction xs) (simp_all add: bind_err_def)

lemma map_err_InrD:
  assumes "map_err f xs = Inr ys"
  shows "length ys = length xs \<and> (\<forall>i<length xs. f (xs ! i) = Inr (ys ! i))"
  using assms
proof (induction xs arbitrary: ys)
  case Nil
  then show ?case by simp
next
  case (Cons x xs)
  from Cons.prems obtain y ys' where y: "f x = Inr y" and r: "map_err f xs = Inr ys'"
    and ys: "ys = y # ys'"
    by (auto simp: bind_err_def split: sum.splits)
  from Cons.IH [OF r] show ?case
    using y ys by (auto simp: nth_Cons split: nat.splits)
qed

lemma get_variable_shape:
  assumes "get_variable e sh i = Inr v" "sh i"
  shows "sh v"
  using assms by (auto simp: get_variable_def split: option.splits if_splits)

lemma init_shapes: "mat_shape n c (init_mat f n c)" "vec_shape c (init_vec f off c)"
  by (simp_all add: mat_shape_def vec_shape_def init_mat_def init_vec_def list_all_iff)

lemma mat_shape_aligned:
  assumes "mat_shape n c a" "mat_shape n c b"
  shows "list_all2 (\<lambda>x y. length x = length y) a b"
  using assms
  by (auto simp: mat_shape_def vec_shape_def list_all2_conv_all_nth list_all_length)

lemma VarLinear_call_built:
  assumes "VarLinear_call mu_init inputs L g = Inr (y, L', g')" "l_use_bias L"
  shows "built_layer L'"
proof -
  from assms(1) obtain L1 where b: "VarLinear_build mu_init inputs L g = Inr (y, L1, g')"
    and L': "L' = L1\<lparr>l_is_connected := True\<rparr>"
    by (auto simp: VarLinear_call_Inr)
  from VarLinear_build_InrD [OF b] assms(2) obtain n wm wr bm br where
    w: "get_variable (l_w_mu L) (mat_shape n (output_size L))
           (init_mat (mu_init [n, output_size L]) n (output_size L)) = Inr wm"
       "get_variable (l_w_rho L) (mat_shape n (output_size L))
           (init_mat rho_init n (output_size L)) = Inr wr"
    and bb: "get_variable (l_b_mu L) (vec_shape (output_size L))
           (init_vec (mu_init [output_size L]) 0 (output_size L)) = Inr bm"
       "get_variable (l_b_rho L) (vec_shape (output_size L))
           (init_vec rho_init 0 (output_size L)) = Inr br"
    and f: "l_w_mu L1 = Some wm" "l_w_rho L1 = Some wr" "l_b_mu L1 = Some bm"
       "l_b_rho L1 = Some br" "l_kl_divergence L1 \<noteq> None"
    by (auto simp: Let_def)
  have "mat_shape n (output_size L) wm" "mat_shape n (output_size L) wr"
    "vec_shape (output_size L) bm" "vec_shape (output_size L) br"
    using w bb by (auto intro: get_variable_shape init_shapes)
  then show ?thesis
    using f by (simp add: built_layer_def aligned_def L' mat_shape_aligned vec_shape_def)
qed

lemma new_layer_fresh: "new_layer out pr [] i = VarLinear_init out pr True"
  by (simp add: new_layer_def)

lemma new_layer_bias: "l_use_bias (new_layer out pr old i)"
  by (simp add: new_layer_def VarLinear_init_def)

lemma network_call_built:
  assumes "network_call u out inits inputs N g = Inr (y, N', g')"
  shows "n_is_connected N'" "length (n_layers N') = 3" "\<forall>L\<in>set (n_layers N'). built_layer L"
proof -
  from assms obtain fl d1 L1 g1 d2 L2 g2 L3 where
    c1: "VarLinear_call (inits 0) fl (new_layer u (n_prior N) (n_layers N) 0) g = Inr (d1, L1, g1)"
    and c2: "VarLinear_call (inits 1) (activation relu fl u d1)
                (new_layer u (n_prior N) (n_layers N) 1) g1 = Inr (d2, L2, g2)"
    and c3: "VarLinear_call (inits 2) (activation relu fl u d2)
                (new_layer out (n_prior N) (n_layers N) 2) g2 = Inr (y, L3, g')"
    and N': "N' = N\<lparr>n_layers := [L1, L2, L3], n_is_connected := True\<rparr>"
    by (auto simp: network_call_def bind_err_def split: sum.splits prod.splits)
  show "n_is_connected N'" "length (n_layers N') = 3" by (simp_all add: N')
  show "\<forall>L\<in>set (n_layers N'). built_layer L"
    using VarLinear_call_built [OF c1 new_layer_bias] VarLinear_call_built [OF c2 new_layer_bias]
      VarLinear_call_built [OF c3 new_layer_bias]
    by (simp add: N')
qed

lemma network_call_fresh:
  assumes "t_shape inputs = [b, Some n]" "n_layers N = []"
  shows "\<exists>y N' g'. network_call u out inits inputs N g = Inr (y, N', g')"
proof -
  have fl: "batch_flatten inputs = Inr (inputs\<lparr>t_shape := [b, Some n]\<rparr>)"
    using assms(1) by (simp add: batch_flatten_def)
  have "\<exists>y L' g'. VarLinear_call (inits 0) (inputs\<lparr>t_shape := [b, Some n]\<rparr>)
      (VarLinear_init u (n_prior N) True) g = Inr (y, L', g')"
    by (rule VarLinear_call_fresh [of _ b n]) simp
  then obtain d1 L1 g1 where c1: "VarLinear_call (inits 0) (inputs\<lparr>t_shape := [b, Some n]\<rparr>)
      (VarLinear_init u (n_prior N) True) g = Inr (d1, L1, g1)"
    by blast
  have "\<exists>y L' g'. VarLinear_call (inits 1)
      (activation relu (inputs\<lparr>t_shape := [b, Some n]\<rparr>) u d1)
      (VarLinear_init u (n_prior N) True) g1 = Inr (y, L', g')"
    by (rule VarLinear_call_fresh [of _ b u]) (simp add: activation_def)
  then obtain d2 L2 g2 where c2: "VarLinear_call (inits 1)
      (activation relu (inputs\<lparr>t_shape := [b, Some n]\<rparr>) u d1)
      (VarLinear_init u (n_prior N) True) g1 = Inr (d2, L2, g2)"
    by blast
  have "\<exists>y L' g'. VarLinear_call (inits 2)
      (activation relu (inputs\<lparr>t_shape := [b, Some n]\<rparr>) u d2)
      (VarLinear_init out (n_prior N) True) g2 = Inr (y, L', g')"
    by (rule VarLinear_call_fresh [of _ b u]) (simp add: activation_def)
  then obtain d3 L3 g3 where c3: "VarLinear_call (inits 2)
      (activation relu (inputs\<lparr>t_shape := [b, Some n]\<rparr>) u d2)
      (VarLinear_init out (n_prior N) True) g2 = Inr (d3, L3, g3)"
    by blast
  show ?thesis
    using fl c1 c2 c3 assms(2) by (simp add: network_call_def bind_err_def new_layer_fresh)
qed

lemma built_layer_kl:
  assumes "built_layer L"
  shows "kl_divergence L = Inr (the (l_kl_divergence L))"
  using assms
  by (auto simp: built_layer_def kl_divergence_def guarded_def ensure_is_connected_def
      bind_err_def attribute_def)

text \<open>
  Claim C2. On a network that was called, whenever the \<^verbatim>\<open>kl_divergence\<close> of each of
  its layers can be read, with values \<open>ks\<close> in the order of the layers, the
  \<^verbatim>\<open>kl_divergence\<close> of the network is their sum (Python's \<^verbatim>\<open>sum\<close>, from \<open>0\<close> and from
  the left), one summand for each layer of the network and no other.
\<close>

theorem net_kl_divergence_is_sum:
  assumes "n_is_connected N" "map_err kl_divergence (n_layers N) = Inr ks"
  shows "net_kl_divergence N = Inr (foldl fadd (Fin 0) ks)
     \<and> length ks = length (n_layers N)
     \<and> (\<forall>i<length (n_layers N). kl_divergence (n_layers N ! i) = Inr (ks ! i))"
  using assms map_err_InrD [OF assms(2)]
  by (simp add: net_kl_divergence_def guarded_def ensure_is_connected_def bind_err_def
      reduce_sum_def)

theorem net_kl_divergence_is_sum_witness:
  "\<exists>y N g. VarMNIST_call (\<lambda>i s k. 0) example_batch5 (VarMNIST_init 2 (Normal (Fin 0) (Fin 1)))
        example_rng = Inr (y, N, g)
     \<and> (\<exists>k1 k2 k3. map kl_divergence (n_layers N) = [Inr k1, Inr k2, Inr k3]
           \<and> net_kl_divergence N = Inr (fadd (fadd (fadd (Fin 0) k1) k2) k3))"
proof -
  have "t_shape example_batch5 = [Some 4, Some 5]"
    "n_layers (VarMNIST_init 2 (Normal (Fin 0) (Fin 1))) = []"
    by (simp_all add: example_batch5_def VarMNIST_init_def)
  from network_call_fresh [OF this]
  obtain y N g where c: "VarMNIST_call (\<lambda>i s k. 0) example_batch5
      (VarMNIST_init 2 (Normal (Fin 0) (Fin 1))) example_rng = Inr (y, N, g)"
    unfolding VarMNIST_call_def by blast
  note b = network_call_built [OF c [unfolded VarMNIST_call_def]]
  from b(2) obtain L1 L2 L3 where Ls: "n_layers N = [L1, L2, L3]"
    by (auto simp: length_Suc_conv numeral_3_eq_3)
  have k: "map_err kl_divergence (n_layers N)
      = Inr (map (\<lambda>L. the (l_kl_divergence L)) (n_layers N))"
    using b(3) by (intro map_err_Inr built_layer_kl) simp
  from net_kl_divergence_is_sum [OF b(1) k]
  have "net_kl_divergence N = Inr (foldl fadd (Fin 0) (map (\<lambda>L. the (l_kl_divergence L)) (n_layers N)))"
    by simp
  moreover have "map kl_divergence (n_layers N) =
      map (\<lambda>L. Inr (the (l_kl_divergence L))) (n_layers N)"
    using b(3) by (intro map_cong refl built_layer_kl) simp
  ultimately show ?thesis
    using c by (simp add: Ls)
qed

section \<open>Parameter vectors\<close>

lemma concat_zip_aligned:
  assumes "list_all2 (\<lambda>a b. length a = length b) wm wr"
  shows "map fst (concat (map2 zip wm wr)) = concat wm"
    and "map snd (concat (map2 zip wm wr)) = concat wr"
  using assms by (induction rule: list_all2_induct) simp_all

lemma built_layer_vectors:
  assumes "built_layer L"
  shows "\<exists>wm. w_mu L = Inr wm \<and> concat wm = map fst (weight_parameters L)"
    and "\<exists>ws. w_sigma L = Inr ws \<and> concat ws = map (softplus \<circ> snd) (weight_parameters L)"
    and "b_mu L = Inr (map fst (bias_parameters L))"
    and "b_sigma L = Inr (map (softplus \<circ> snd) (bias_parameters L))"
proof -
  from assms obtain wm wr bm br where
    f: "l_w_mu L = Some wm" "l_w_rho L = Some wr" "l_b_mu L = Some bm" "l_b_rho L = Some br"
    and a: "list_all2 (\<lambda>a b. length a = length b) wm wr" "length bm = length br"
    and c: "l_is_connected L"
    by (auto simp: built_layer_def aligned_def split: option.splits)
  have wp: "weight_parameters L = concat (map2 zip wm wr)"
    and bp: "bias_parameters L = zip bm br"
    using f by (simp_all add: weight_parameters_def bias_parameters_def)
  show "\<exists>wm. w_mu L = Inr wm \<and> concat wm = map fst (weight_parameters L)"
    using c f concat_zip_aligned(1) [OF a(1)]
    by (simp add: w_mu_def guarded_def ensure_is_connected_def bind_err_def attribute_def wp)
  have "concat (map (map softplus) wr) = map softplus (concat wr)"
    by (simp only: map_concat)
  also have "\<dots> = map softplus (map snd (concat (map2 zip wm wr)))"
    by (simp only: concat_zip_aligned(2) [OF a(1)])
  also have "\<dots> = map (softplus \<circ> snd) (concat (map2 zip wm wr))"
    by (simp only: map_map)
  finally have "concat (map (map softplus) wr)
      = map (softplus \<circ> snd) (concat (map2 zip wm wr))" .
  then show "\<exists>ws. w_sigma L = Inr ws \<and> concat ws = map (softplus \<circ> snd) (weight_parameters L)"
    using c f
    by (simp add: w_sigma_def guarded_def ensure_is_connected_def bind_err_def attribute_def wp)
  show "b_mu L = Inr (map fst (bias_parameters L))"
    using c f a(2)
    by (simp add: b_mu_def guarded_def ensure_is_connected_def bind_err_def attribute_def bp)
  show "b_sigma L = Inr (map (softplus \<circ> snd) (bias_parameters L))"
    using c f a(2)
    by (simp add: b_sigma_def guarded_def ensure_is_connected_def bind_err_def attribute_def bp
        map_map [symmetric] del: map_map)
qed

lemma concat_map_map: "concat (map (map f \<circ> h) xs) = map f (concat (map h xs))"
  by (induction xs) simp_all

lemma mu_vector_built:
  assumes "n_is_connected N" "n_layers N \<noteq> []" "\<forall>L\<in>set (n_layers N). built_layer L"
  shows "mu_vector N = Inr (map fst (parameters (n_layers N)))"
proof -
  have w: "map_err w_mu (n_layers N) = Inr (map (\<lambda>L. projr (w_mu L)) (n_layers N))"
    using assms(3) built_layer_vectors(1) by (intro map_err_Inr) fastforce
  have b: "map_err b_mu (n_layers N) = Inr (map (map fst \<circ> bias_parameters) (n_layers N))"
    using assms(3) built_layer_vectors(3) by (intro map_err_Inr) simp
  have "concat (map concat (map (\<lambda>L. projr (w_mu L)) (n_layers N)))
      = concat (map (map fst \<circ> weight_parameters) (n_layers N))"
  proof -
    have "map concat (map (\<lambda>L. projr (w_mu L)) (n_layers N))
        = map (map fst \<circ> weight_parameters) (n_layers N)"
      using assms(3) built_layer_vectors(1) by (fastforce simp: comp_def)
    then show ?thesis by (rule arg_cong)
  qed
  then have "concat (map concat (map (\<lambda>L. projr (w_mu L)) (n_layers N))
                @ map (map fst \<circ> bias_parameters) (n_layers N))
      = map fst (parameters (n_layers N))"
    by (simp add: parameters_def concat_map_map del: map_map)
  then show ?thesis
    using assms(1,2)
    by (simp add: mu_vector_def guarded_def ensure_is_connected_def bind_err_def w b
        tf_concat_def del: map_map concat_append map_append)
qed

lemma sigma_vector_built:
  assumes "n_is_connected N" "n_layers N \<noteq> []" "\<forall>L\<in>set (n_layers N). built_layer L"
  shows "sigma_vector N = Inr (map (softplus \<circ> snd) (parameters (n_layers N)))"
proof -
  have w: "map_err w_sigma (n_layers N) = Inr (map (\<lambda>L. projr (w_sigma L)) (n_layers N))"
    using assms(3) built_layer_vectors(2) by (intro map_err_Inr) fastforce
  have b: "map_err b_sigma (n_layers N)
      = Inr (map (map (softplus \<circ> snd) \<circ> bias_parameters) (n_layers N))"
    using assms(3) built_layer_vectors(4) by (intro map_err_Inr) simp
  have "concat (map concat (map (\<lambda>L. projr (w_sigma L)) (n_layers N)))
      = concat (map (map (softplus \<circ> snd) \<circ> weight_parameters) (n_layers N))"
  proof -
    have "map concat (map (\<lambda>L. projr (w_sigma L)) (n_layers N))
        = map (map (softplus \<circ> snd) \<circ> weight_parameters) (n_layers N)"
      using assms(3) built_layer_vectors(2) by (fastforce simp: comp_def)
    then show ?thesis by (rule arg_cong)
  qed
  then have "concat (map concat (map (\<lambda>L. projr (w_sigma L)) (n_layers N))
                @ map (map (softplus \<circ> snd) \<circ> bias_parameters) (n_layers N))
      = map (softplus \<circ> snd) (parameters (n_layers N))"
    by (simp add: parameters_def concat_map_map del: map_map)
  then show ?thesis
    using assms(1,2)
    by (simp add: sigma_vector_def guarded_def ensure_is_connected_def bind_err_def w b
        tf_concat_def del: map_map concat_append map_append)
qed

lemma sample_entries_pairs:
  "sample_entries e 0 (map fst ps) (map (softplus \<circ> snd) ps)
     = map (\<lambda>(k, m, r). fadd m (fmul (softplus r) (Fin (e k)))) (zip [0..<length ps] ps)"
proof -
  have "zip (map fst ps) (map (softplus \<circ> snd) ps) = map (\<lambda>p. (fst p, softplus (snd p))) ps"
    by (induction ps) simp_all
  then show ?thesis
    by (simp add: sample_entries_def zip_map2 case_prod_unfold)
qed

text \<open>
  Claim C10. On a built network \<^verbatim>\<open>mu_vector\<close> and \<^verbatim>\<open>sigma_vector\<close> list the same
  parameters in the same order: the weights of every layer in the order of the layers,
  each matrix row by row, then the biases of every layer. Coordinate \<open>i\<close> of
  \<^verbatim>\<open>mu_vector\<close> is the mean of parameter \<open>i\<close> and coordinate \<open>i\<close> of \<^verbatim>\<open>sigma_vector\<close>
  is the softplus of the raw scale of that parameter, and \<^verbatim>\<open>sample_posterior\<close> makes
  one draw, whose coordinate \<open>i\<close> is the mean of parameter \<open>i\<close> plus its own scale
  times the noise of coordinate \<open>i\<close>.
\<close>

theorem parameter_vectors_same_order:
  assumes "n_is_connected N" "n_layers N \<noteq> []" "\<forall>L\<in>set (n_layers N). built_layer L"
  shows "mu_vector N = Inr (map fst (parameters (n_layers N)))
     \<and> sigma_vector N = Inr (map (softplus \<circ> snd) (parameters (n_layers N)))
     \<and> sample_posterior N g =
         Inr (map (\<lambda>(k, m, r). fadd m (fmul (softplus r) (Fin (noise g (draws g) k))))
                  (zip [0..<length (parameters (n_layers N))] (parameters (n_layers N))),
              g\<lparr>draws := Suc (draws g)\<rparr>)"
  using mu_vector_built [OF assms] sigma_vector_built [OF assms]
  by (simp add: sample_posterior_def bind_err_def sample_vec_def sample_entries_pairs
      del: map_map)

theorem parameter_vectors_same_order_witness:
  "\<exists>y N g. VarMNIST_call (\<lambda>i s k. 0) example_batch5 (VarMNIST_init 2 (Normal (Fin 0) (Fin 1)))
        example_rng = Inr (y, N, g)
     \<and> mu_vector N = Inr (map fst (parameters (n_layers N)))
     \<and> sigma_vector N = Inr (map (softplus \<circ> snd) (parameters (n_layers N)))"
proof -
  have "t_shape example_batch5 = [Some 4, Some 5]"
    "n_layers (VarMNIST_init 2 (Normal (Fin 0) (Fin 1))) = []"
    by (simp_all add: example_batch5_def VarMNIST_init_def)
  from network_call_fresh [OF this]
  obtain y N g where c: "VarMNIST_call (\<lambda>i s k. 0) example_batch5
      (VarMNIST_init 2 (Normal (Fin 0) (Fin 1))) example_rng = Inr (y, N, g)"
    unfolding VarMNIST_call_def by blast
  note b = network_call_built [OF c [unfolded VarMNIST_call_def]]
  have ne: "n_layers N \<noteq> []" using b(2) by auto
  from parameter_vectors_same_order [OF b(1) ne b(3)] c show ?thesis by blast
qed

section \<open>Compression\<close>

lemma built_layers_readable:
  assumes "\<forall>L\<in>set Ls. built_layer L"
  shows "\<exists>wm ws bm bs. map_err w_mu Ls = Inr wm \<and> map_err w_sigma Ls = Inr ws
     \<and> map_err b_mu Ls = Inr bm \<and> map_err b_sigma Ls = Inr bs"
proof -
  have "map_err w_mu Ls = Inr (map (\<lambda>L. projr (w_mu L)) Ls)"
    using assms built_layer_vectors(1) by (intro map_err_Inr) fastforce
  moreover have "map_err w_sigma Ls = Inr (map (\<lambda>L. projr (w_sigma L)) Ls)"
    using assms built_layer_vectors(2) by (intro map_err_Inr) fastforce
  moreover have "map_err b_mu Ls = Inr (map (map fst \<circ> bias_parameters) Ls)"
    using assms built_layer_vectors(3) by (intro map_err_Inr) simp
  moreover have "map_err b_sigma Ls = Inr (map (map (softplus \<circ> snd) \<circ> bias_parameters) Ls)"
    using assms built_layer_vectors(4) by (intro map_err_Inr) simp
  ultimately show ?thesis by blast
qed

text \<open>
  Claim C8, as the code has it. On a network whose layers can all be read, and when
  \<^verbatim>\<open>eliminate_dead_neurons\<close> returns, \<^verbatim>\<open>compress()\<close> returns one value, which is not a
  pair: a new \<^verbatim>\<open>ReducedVarMNIST\<close>, not yet called, that stores the retained input
  indices and the trimmed means and scales of weights and biases that
  \<^verbatim>\<open>eliminate_dead_neurons\<close> computed from the means and scales of the layers, together
  with the prior of the network. The network itself is left as it was.
\<close>

theorem compress_returns_reduced_model:
  assumes "map_err w_mu (n_layers N) = Inr wm" "map_err w_sigma (n_layers N) = Inr ws"
    and "map_err b_mu (n_layers N) = Inr bm" "map_err b_sigma (n_layers N) = Inr bs"
    and "elim wm ws bm bs [relu, relu, \<lambda>x. x] = Some (idx, wm', ws', bm', bs')"
  shows "\<exists>R. compress elim N = (Inr (PyModel R), N)
     \<and> r_input_indices R = idx \<and> r_w_mus R = wm' \<and> r_w_sigmas R = ws'
     \<and> r_b_mus R = bm' \<and> r_b_sigmas R = bs' \<and> n_prior R = n_prior N
     \<and> n_layers R = [] \<and> \<not> n_is_connected R
     \<and> \<not> returns_pair (fst (compress elim N))"
  using assms by (simp add: compress_def bind_err_def ReducedVarMNIST_init_def)

theorem compress_returns_reduced_model_witness:
  "\<exists>y N g R. VarMNIST_call (\<lambda>i s k. 0) example_batch5 (VarMNIST_init 2 (Normal (Fin 0) (Fin 1)))
        example_rng = Inr (y, N, g)
     \<and> compress example_elimination N = (Inr (PyModel R), N) \<and> r_input_indices R = [0]"
proof -
  have "t_shape example_batch5 = [Some 4, Some 5]"
    "n_layers (VarMNIST_init 2 (Normal (Fin 0) (Fin 1))) = []"
    by (simp_all add: example_batch5_def VarMNIST_init_def)
  from network_call_fresh [OF this]
  obtain y N g where c: "VarMNIST_call (\<lambda>i s k. 0) example_batch5
      (VarMNIST_init 2 (Normal (Fin 0) (Fin 1))) example_rng = Inr (y, N, g)"
    unfolding VarMNIST_call_def by blast
  note b = network_call_built [OF c [unfolded VarMNIST_call_def]]
  from built_layers_readable [OF b(3)] obtain wm ws bm bs where
    r: "map_err w_mu (n_layers N) = Inr wm" "map_err w_sigma (n_layers N) = Inr ws"
       "map_err b_mu (n_layers N) = Inr bm" "map_err b_sigma (n_layers N) = Inr bs"
    by blast
  have e: "example_elimination wm ws bm bs [relu, relu, \<lambda>x. x] = Some ([0], wm, ws, bm, bs)"
    by (simp add: example_elimination_def)
  from compress_returns_reduced_model [of N wm ws bm bs example_elimination, OF r e] c
  show ?thesis by blast
qed

theorem compress_pair_counterexample:
  "\<not> returns_pair (fst (compress example_elimination example_network))"
  by (simp add: compress_def example_network_def example_layer_def example_elimination_def
      bind_err_def w_mu_def w_sigma_def b_mu_def b_sigma_def guarded_def
      ensure_is_connected_def attribute_def)

end
